theory Spec2Isabelle
  imports Complex_Main "HOL-Library.Char_ord" "HOL-Library.List_Lexorder" "HOL-Library.Multiset"
begin

section \<open>The sales analyzer of sale_analysis.py\<close>

text \<open>
  The program is a batch pipeline over a pandas DataFrame held by a \<open>SalesAnalyzer\<close>
  object: \<open>load_data\<close>, \<open>clean_data\<close>, \<open>calculate_metrics\<close>,
  \<open>generate_visualizations\<close>, \<open>generate_report\<close>, run in this order by \<open>main\<close>.

  Conventions of the embedding.
  \<^item> A missing value (pandas NaN, or NaT for a date) is \<open>None\<close>.
  \<^item> Numbers are rationals and the model adds and divides them exactly. The program adds
    in int64 (a column read with no missing value and no decimal point) or in float64:
    int64 addition wraps modulo \<open>2^64\<close> (\<open>int64_sum\<close> below), float64 addition
    rounds. The two agree with the exact sum on a column of integers whose absolute values
    add up to less than \<open>2^53\<close> (\<open>exact_column\<close> below): every partial sum is then an
    integer that both formats hold exactly. A statement about exact values carries this as
    a hypothesis.
  \<^item> Product and Region cells are the text of the cell.
  \<^item> The behaviour of the pandas calls is written out as pandas documents it:
    \<open>sum\<close> and \<open>mean\<close> skip missing values, \<open>mean\<close> of no value is NaN,
    \<open>groupby\<close> lists its groups in ascending key order and drops rows whose key is
    missing, \<open>idxmax\<close> returns the first label that holds the maximum and raises on an
    empty series, \<open>reindex\<close> gives NaN to a label the series does not have.
  \<^item> \<open>self.df[col].fillna(mean_val, inplace=True)\<close> fills the object that
    \<open>self.df[col]\<close> returns. Up to pandas 2 this is a view of the frame and the fill
    reaches the frame; from pandas 3 on (copy-on-write) it is a temporary and the frame
    keeps its missing values. Which of the two happens is the parameter
    \<open>copy_on_write\<close> of \<open>clean_data\<close>.
  \<^item> \<open>sort_values(ascending=False)\<close> runs the default quicksort of the library, which
    does not promise what order tied values end up in. The sort is a parameter
    \<open>sort_values\<close> of the model, of which \<open>descending_sort\<close> says all that is known:
    it returns the same entries, highest value first.
  \<^item> What matplotlib does with the first two figures (draw them, or raise) is the
    parameter \<open>draw\<close>.
  \<^item> An exception that nothing catches is \<open>Inl\<close> of the error; it ends the process.
  \<^item> Reading the file and parsing a date are parameters of the model: the outcome of
    \<open>pd.read_csv\<close> on a path, and the timestamp \<open>pd.to_datetime\<close> gives to the text
    of one Date cell (\<open>None\<close> when the text does not parse).
\<close>

subsection \<open>Data\<close>

datatype month_of_year =
  Jan | Feb | Mar | Apr | May | Jun | Jul | Aug | Sep | Oct | Nov | Dec

record timestamp =
  year :: int
  month :: month_of_year
  day :: nat

text \<open>\<open>Series.dt.month_name()\<close>: the English name of the month.\<close>

fun month_name :: "month_of_year \<Rightarrow> string" where
  "month_name Jan = ''January''"
| "month_name Feb = ''February''"
| "month_name Mar = ''March''"
| "month_name Apr = ''April''"
| "month_name May = ''May''"
| "month_name Jun = ''June''"
| "month_name Jul = ''July''"
| "month_name Aug = ''August''"
| "month_name Sep = ''September''"
| "month_name Oct = ''October''"
| "month_name Nov = ''November''"
| "month_name Dec = ''December''"

text \<open>A numeric cell; \<open>None\<close> is NaN.\<close>

type_synonym cell = "rat option"

text \<open>
  One row of the frame. The six columns of the input file; the type of the Date cell is a
  parameter, since \<open>clean_data\<close> replaces the text by a timestamp. The cleaned row extends
  the record by the derived Month column.
\<close>

record 'd sale =
  Date :: 'd
  Product :: "string option"
  Region :: "string option"
  Quantity :: cell
  Price :: cell
  Total_Sales :: cell

record 'd month_sale = "'d sale" +
  Month :: "string option"

type_synonym raw_row = "string option sale"
type_synonym clean_row = "timestamp option month_sale"

text \<open>\<open>self.df\<close> once loaded: as read from the file, or as \<open>clean_data\<close> leaves it.\<close>

datatype dataframe = Raw "raw_row list" | Cleaned "clean_row list"

text \<open>A pandas Series with string labels and numeric values, in its own order.\<close>

type_synonym series = "(string \<times> rat) list"

text \<open>
  \<open>self.metrics\<close>: a dict that starts empty. Each key is a field, \<open>None\<close> while the key
  is absent. The average is a cell, since the mean of no value is NaN.
\<close>

record metrics =
  total_sales :: "rat option"
  best_product :: "string option"
  best_product_qty :: "rat option"
  avg_transaction :: "cell option"
  regional_sales :: "series option"
  monthly_sales :: "series option"

record analyzer =
  file_path :: string
  df :: "dataframe option"
  metrics :: metrics

datatype error = ReadError | ParserError | ValueError | KeyError | TypeError | AttributeError

definition no_metrics :: metrics where
  "no_metrics = \<lparr>total_sales = None, best_product = None, best_product_qty = None,
     avg_transaction = None, regional_sales = None, monthly_sales = None\<rparr>"

text \<open>\<open>SalesAnalyzer.__init__\<close>\<close>

definition SalesAnalyzer :: "string \<Rightarrow> analyzer" where
  "SalesAnalyzer path = \<lparr>file_path = path, df = None, metrics = no_metrics\<rparr>"

subsection \<open>The pandas operations the program calls\<close>

primrec dropna :: "'a option list \<Rightarrow> 'a list" where
  "dropna [] = []"
| "dropna (c # cs) = (case c of None \<Rightarrow> dropna cs | Some v \<Rightarrow> v # dropna cs)"

text \<open>\<open>Series.isnull().any()\<close>\<close>

definition isnull_any :: "'a option list \<Rightarrow> bool" where
  "isnull_any col = list_ex (\<lambda>c. c = None) col"

text \<open>\<open>Series.sum()\<close>: missing values are skipped, the sum of nothing is 0.\<close>

definition series_sum :: "cell list \<Rightarrow> rat" where
  "series_sum col = sum_list (dropna col)"

text \<open>\<open>Series.mean()\<close>: the mean of the values present, NaN when there is none.\<close>

definition series_mean :: "cell list \<Rightarrow> cell" where
  "series_mean col =
     (let vs = dropna col
      in if vs = [] then None else Some (sum_list vs / of_nat (length vs)))"

text \<open>\<open>fillna(v)\<close> on one cell: filling with NaN leaves the cell missing.\<close>

definition fillna :: "cell \<Rightarrow> cell \<Rightarrow> cell" where
  "fillna v c = (case c of None \<Rightarrow> v | Some x \<Rightarrow> Some x)"

text \<open>
  \<open>df.groupby(key)[val].sum()\<close> on the pairs (key, value) of the rows: one entry per key
  present, keys ascending, each with the sum of the values present in its rows.
\<close>

definition groupby_sum :: "(string option \<times> cell) list \<Rightarrow> series" where
  "groupby_sum kvs =
     map (\<lambda>k. (k, series_sum (map snd (filter (\<lambda>kv. fst kv = Some k) kvs))))
         (sort (remdups (dropna (map fst kvs))))"

text \<open>
  What is known of \<open>Series.sort_values(ascending=False)\<close>: the result has the entries of
  the series, each as often as the series has it, in descending order of the values.
\<close>

definition descending_sort :: "(series \<Rightarrow> series) \<Rightarrow> bool" where
  "descending_sort sort_values \<longleftrightarrow>
     (\<forall>s. mset (sort_values s) = mset s
          \<and> sorted_wrt (\<lambda>x y. snd y \<le> snd x) (sort_values s))"

text \<open>
  One such sort, which keeps tied entries in the order of the series. The examples use
  it: their tables have no tied values, or two tied values that the program leaves in
  this order as well.
\<close>

definition stable_descending :: "series \<Rightarrow> series" where
  "stable_descending s = sort_key (\<lambda>kv. - snd kv) s"

text \<open>
  \<open>Series.sum()\<close> on an int64 column: two's complement addition, so that the result is
  the exact sum wrapped into the range of int64.
\<close>

definition wrap_int64 :: "int \<Rightarrow> int" where
  "wrap_int64 n = (n + 2 ^ 63) mod 2 ^ 64 - 2 ^ 63"

definition int64_sum :: "int list \<Rightarrow> int" where
  "int64_sum xs = wrap_int64 (sum_list xs)"

text \<open>
  A column on which the arithmetic of the program is exact: its present values are
  integers, and their absolute values add up to less than \<open>2^53\<close>.
\<close>

definition exact_column :: "cell list \<Rightarrow> bool" where
  "exact_column col \<longleftrightarrow>
     list_all (\<lambda>v. of_int \<lfloor>v\<rfloor> = v) (dropna col) \<and> (\<Sum>v\<leftarrow>dropna col. \<bar>v\<bar>) < 2 ^ 53"

text \<open>The first entry of a series that holds its maximum; none in an empty series.\<close>

fun first_max :: "series \<Rightarrow> (string \<times> rat) option" where
  "first_max [] = None"
| "first_max ((k, v) # s) =
     (case first_max s of
        None \<Rightarrow> Some (k, v)
      | Some (k', v') \<Rightarrow> if v < v' then Some (k', v') else Some (k, v))"

definition idxmax :: "series \<Rightarrow> string option" where
  "idxmax s = map_option fst (first_max s)"

definition series_max :: "series \<Rightarrow> rat option" where
  "series_max s = map_option snd (first_max s)"

text \<open>
  \<open>Series.reindex(labels)\<close>: the value of each label, NaN for a label the series lacks.
  pandas refuses to reindex a series with a duplicated label.
\<close>

definition reindex :: "series \<Rightarrow> string list \<Rightarrow> error + (string \<times> cell) list" where
  "reindex s labels =
     (if distinct (map fst s) then Inr (map (\<lambda>k. (k, map_of s k)) labels)
      else Inl ValueError)"

subsection \<open>load_data\<close>

text \<open>
  What \<open>pd.read_csv(self.file_path)\<close> does: it raises FileNotFoundError, it raises
  something else (empty file, parse error, no permission), or it returns the table.
\<close>

datatype read_result = FileNotFound | ReadFailure | Table "raw_row list"

text \<open>The lines \<open>load_data\<close> prints: the shape, the column list, the failure.\<close>

datatype message =
  LoadedShape nat nat
| Columns "string list"
| FileNotFoundMessage string

definition columns :: "string list" where
  "columns = [''Date'', ''Product'', ''Region'', ''Quantity'', ''Price'', ''Total_Sales'']"

definition load_data ::
  "(string \<Rightarrow> read_result) \<Rightarrow> analyzer \<Rightarrow> error + (analyzer \<times> bool \<times> message list)" where
  "load_data read_csv a =
     (case read_csv (file_path a) of
        Table rows \<Rightarrow>
          Inr (a\<lparr>df := Some (Raw rows)\<rparr>, True,
               [LoadedShape (length rows) (length columns), Columns columns])
      | FileNotFound \<Rightarrow> Inr (a, False, [FileNotFoundMessage (file_path a)])
      | ReadFailure \<Rightarrow> Inl ReadError)"

subsection \<open>clean_data\<close>

text \<open>
  One round of the loop over \<open>numeric_cols\<close>: \<open>get\<close> reads the column of a row and
  \<open>upd\<close> changes it. The mean is computed and the fill is called on the selected column;
  under copy-on-write the selected column is a temporary and the rows stay as they are.
\<close>

definition fill_column ::
  "bool \<Rightarrow> ('r \<Rightarrow> cell) \<Rightarrow> ((cell \<Rightarrow> cell) \<Rightarrow> 'r \<Rightarrow> 'r) \<Rightarrow> 'r list \<Rightarrow> 'r list" where
  "fill_column copy_on_write get upd rows =
     (if isnull_any (map get rows)
      then (let mean_val = series_mean (map get rows)
            in if copy_on_write then rows else map (upd (fillna mean_val)) rows)
      else rows)"

definition fill_numeric ::
  "bool \<Rightarrow> ('d, 'z) sale_scheme list \<Rightarrow> ('d, 'z) sale_scheme list" where
  "fill_numeric copy_on_write rows =
     fill_column copy_on_write Total_Sales Total_Sales_update
       (fill_column copy_on_write Price Price_update
          (fill_column copy_on_write Quantity Quantity_update rows))"

text \<open>
  \<open>pd.to_datetime\<close> on the Date column: a missing cell becomes NaT, a text that does not
  parse is an error.
\<close>

primrec to_datetime ::
  "(string \<Rightarrow> timestamp option) \<Rightarrow> string option list \<Rightarrow> timestamp option list option" where
  "to_datetime parse [] = Some []"
| "to_datetime parse (c # cs) =
     (case c of
        None \<Rightarrow> map_option (\<lambda>ds. None # ds) (to_datetime parse cs)
      | Some text \<Rightarrow>
          (case parse text of
             None \<Rightarrow> None
           | Some t \<Rightarrow> map_option (\<lambda>ds. Some t # ds) (to_datetime parse cs)))"

definition month_of :: "timestamp option \<Rightarrow> string option" where
  "month_of d = map_option (\<lambda>t. month_name (month t)) d"

definition with_date :: "('a, 'z) sale_scheme \<Rightarrow> timestamp option \<Rightarrow> clean_row" where
  "with_date r d =
     \<lparr>Date = d, Product = Product r, Region = Region r, Quantity = Quantity r,
      Price = Price r, Total_Sales = Total_Sales r, Month = month_of d\<rparr>"

definition clean_data ::
  "bool \<Rightarrow> (string \<Rightarrow> timestamp option) \<Rightarrow> analyzer \<Rightarrow> error + (analyzer \<times> bool)" where
  "clean_data copy_on_write parse a =
     (case df a of
        None \<Rightarrow> Inr (a, False)
      | Some (Raw rows) \<Rightarrow>
          (let filled = fill_numeric copy_on_write rows
           in case to_datetime parse (map Date filled) of
                None \<Rightarrow> Inl ParserError
              | Some dates \<Rightarrow>
                  Inr (a\<lparr>df := Some (Cleaned (map2 with_date filled dates))\<rparr>, True))
      | Some (Cleaned rows) \<Rightarrow>
          Inr (a\<lparr>df := Some (Cleaned (map (\<lambda>r. with_date r (Date r))
                                          (fill_numeric copy_on_write rows)))\<rparr>,
               True))"

subsection \<open>calculate_metrics\<close>

definition product_sales :: "(series \<Rightarrow> series) \<Rightarrow> ('d, 'z) sale_scheme list \<Rightarrow> series" where
  "product_sales sort_values rows =
     sort_values (groupby_sum (map (\<lambda>r. (Product r, Quantity r)) rows))"

definition region_sales :: "(series \<Rightarrow> series) \<Rightarrow> ('d, 'z) sale_scheme list \<Rightarrow> series" where
  "region_sales sort_values rows =
     sort_values (groupby_sum (map (\<lambda>r. (Region r, Total_Sales r)) rows))"

definition month_sales :: "clean_row list \<Rightarrow> series" where
  "month_sales rows = groupby_sum (map (\<lambda>r. (Month r, Total_Sales r)) rows)"

text \<open>
  The metrics are stored one after the other. On a frame that was never cleaned the first
  four are computed and \<open>groupby('Month')\<close> raises KeyError; with no group of products
  \<open>idxmax\<close> raises ValueError before that.
\<close>

definition calculate_metrics ::
  "(series \<Rightarrow> series) \<Rightarrow> analyzer \<Rightarrow> error + (analyzer \<times> metrics)" where
  "calculate_metrics sort_values a =
     (case df a of
        None \<Rightarrow> Inl TypeError
      | Some (Raw rows) \<Rightarrow>
          (case idxmax (product_sales sort_values rows) of
             None \<Rightarrow> Inl ValueError
           | Some best \<Rightarrow> Inl KeyError)
      | Some (Cleaned rows) \<Rightarrow>
          (case idxmax (product_sales sort_values rows) of
             None \<Rightarrow> Inl ValueError
           | Some best \<Rightarrow>
               (let m = (metrics a)
                      \<lparr>total_sales := Some (series_sum (map Total_Sales rows)),
                       best_product := Some best,
                       best_product_qty := series_max (product_sales sort_values rows),
                       avg_transaction := Some (series_mean (map Total_Sales rows)),
                       regional_sales := Some (region_sales sort_values rows),
                       monthly_sales := Some (month_sales rows)\<rparr>
                in Inr (a\<lparr>metrics := m\<rparr>, m))))"

subsection \<open>generate_visualizations\<close>

text \<open>
  The function computes the data of three figures and hands each to matplotlib, one
  after the other and with nothing caught in between: the per-product quantity and
  revenue, ordered by revenue; the revenue per region for the pie chart; the monthly
  series of the metrics reindexed to \<open>months_order\<close> for the line plot.

  Whether matplotlib draws one of the first two figures or raises is the parameter
  \<open>draw\<close> (\<open>None\<close>: drawn). \<open>plt.pie\<close>, for one, raises ValueError on a negative
  wedge size and on wedge sizes that are all zero. The line plot of the third figure
  draws a marker for each label whose value is present and nothing for a NaN; it is taken
  to succeed, and the result of the model is the series it plots. Creating the directory
  and writing the image files are outside the model.
\<close>

datatype figure =
  ProductPerformance "(string \<times> cell \<times> rat) list"
| RegionalSales series

definition months_order :: "string list" where
  "months_order = [''January'', ''February'', ''March'', ''April'']"

definition product_summary ::
  "(series \<Rightarrow> series) \<Rightarrow> ('d, 'z) sale_scheme list \<Rightarrow> (string \<times> cell \<times> rat) list" where
  "product_summary sort_values rows =
     (let quantity = groupby_sum (map (\<lambda>r. (Product r, Quantity r)) rows);
          revenue = groupby_sum (map (\<lambda>r. (Product r, Total_Sales r)) rows)
      in map (\<lambda>(k, v). (k, map_of quantity k, v)) (sort_values revenue))"

definition regional_data :: "('d, 'z) sale_scheme list \<Rightarrow> series" where
  "regional_data rows = groupby_sum (map (\<lambda>r. (Region r, Total_Sales r)) rows)"

definition first_figures ::
  "(series \<Rightarrow> series) \<Rightarrow> (figure \<Rightarrow> error option) \<Rightarrow> ('d, 'z) sale_scheme list \<Rightarrow> error option" where
  "first_figures sort_values draw rows =
     (case draw (ProductPerformance (product_summary sort_values rows)) of
        Some e \<Rightarrow> Some e
      | None \<Rightarrow> draw (RegionalSales (regional_data rows)))"

definition generate_visualizations ::
  "(series \<Rightarrow> series) \<Rightarrow> (figure \<Rightarrow> error option) \<Rightarrow> analyzer
   \<Rightarrow> error + (string \<times> cell) list" where
  "generate_visualizations sort_values draw a =
     (case df a of
        None \<Rightarrow> Inl AttributeError
      | Some frame \<Rightarrow>
          (case (case frame of
                   Raw rows \<Rightarrow> first_figures sort_values draw rows
                 | Cleaned rows \<Rightarrow> first_figures sort_values draw rows) of
             Some e \<Rightarrow> Inl e
           | None \<Rightarrow>
               (case monthly_sales (metrics a) of
                  None \<Rightarrow> Inl KeyError
                | Some monthly_data \<Rightarrow> reindex monthly_data months_order)))"


subsection \<open>generate_report\<close>

text \<open>
  The report is kept as its data: the figures that the text prints, section by section.
  The title, the generation time, the period line and the fixed sentences are not
  modelled, except that formatting the period fails on a frame whose dates are not
  timestamps (AttributeError) or are all missing (NaT has no \<open>strftime\<close>: ValueError).
  A division of numpy numbers by zero gives inf or NaN and no exception: \<open>None\<close>.
\<close>

record report =
  records_analyzed :: nat
  total_revenue :: rat
  average_transaction :: cell
  best_selling :: "string \<times> rat"
  regional_performance :: "(string \<times> rat \<times> cell) list"
  monthly_trends :: series

definition percentage :: "rat \<Rightarrow> rat \<Rightarrow> cell" where
  "percentage sales tot = (if tot = 0 then None else Some ((sales / tot) * 100))"

definition generate_report :: "analyzer \<Rightarrow> error + report" where
  "generate_report a =
     (case df a of
        None \<Rightarrow> Inl TypeError
      | Some (Raw rows) \<Rightarrow> Inl AttributeError
      | Some (Cleaned rows) \<Rightarrow>
          if dropna (map Date rows) = [] then Inl ValueError
          else
            (case (total_sales (metrics a), avg_transaction (metrics a),
                   best_product (metrics a), best_product_qty (metrics a),
                   regional_sales (metrics a), monthly_sales (metrics a)) of
               (Some tot, Some avg, Some best, Some qty, Some regional, Some monthly) \<Rightarrow>
                 Inr \<lparr>records_analyzed = length rows,
                      total_revenue = tot,
                      average_transaction = avg,
                      best_selling = (best, qty),
                      regional_performance =
                        map (\<lambda>(region, sales). (region, sales, percentage sales tot)) regional,
                      monthly_trends = monthly\<rparr>
             | _ \<Rightarrow> Inl KeyError))"

subsection \<open>main\<close>

text \<open>
  The stages that \<open>main\<close> runs after the loader, in the order it called them. \<open>main\<close>
  ignores what \<open>clean_data\<close> returns. It returns normally (\<open>Inr\<close>) or is ended by an
  exception of a stage (\<open>Inl\<close>).
\<close>

datatype stage = Cleaner | MetricsCalculator | Visualizer | Reporter

definition main ::
  "(string \<Rightarrow> read_result) \<Rightarrow> bool \<Rightarrow> (string \<Rightarrow> timestamp option) \<Rightarrow> (series \<Rightarrow> series)
   \<Rightarrow> (figure \<Rightarrow> error option) \<Rightarrow> error + (analyzer \<times> stage list)" where
  "main read_csv copy_on_write parse sort_values draw =
     (case load_data read_csv (SalesAnalyzer ''sales_data.csv'') of
        Inl e \<Rightarrow> Inl e
      | Inr (a0, loaded, out) \<Rightarrow>
          if loaded then
            (case clean_data copy_on_write parse a0 of
               Inl e \<Rightarrow> Inl e
             | Inr (a1, cleaned) \<Rightarrow>
                 (case calculate_metrics sort_values a1 of
                    Inl e \<Rightarrow> Inl e
                  | Inr (a2, m) \<Rightarrow>
                      (case generate_visualizations sort_values draw a2 of
                         Inl e \<Rightarrow> Inl e
                       | Inr chart \<Rightarrow>
                           (case generate_report a2 of
                              Inl e \<Rightarrow> Inl e
                            | Inr r \<Rightarrow>
                                Inr (a2, [Cleaner, MetricsCalculator, Visualizer, Reporter])))))
          else Inr (a0, []))"

subsection \<open>Notions of the specification\<close>

text \<open>The sum of a column over the records of one group, missing cells skipped.\<close>

definition group_total :: "('r \<Rightarrow> string option) \<Rightarrow> ('r \<Rightarrow> cell) \<Rightarrow> 'r list \<Rightarrow> string \<Rightarrow> rat" where
  "group_total key val rows k = series_sum (map val (filter (\<lambda>r. key r = Some k) rows))"

text \<open>The keys of a column in the order in which they first appear in the table.\<close>

primrec first_encountered :: "'a option list \<Rightarrow> 'a list" where
  "first_encountered [] = []"
| "first_encountered (c # cs) =
     (case c of
        None \<Rightarrow> first_encountered cs
      | Some k \<Rightarrow> k # filter (\<lambda>k'. k' \<noteq> k) (first_encountered cs))"

text \<open>
  The grouping as the specification describes it: the groups in first-encountered order,
  each with its total.
\<close>

definition groups_as_encountered ::
  "('r \<Rightarrow> string option) \<Rightarrow> ('r \<Rightarrow> cell) \<Rightarrow> 'r list \<Rightarrow> series" where
  "groups_as_encountered key val rows =
     map (\<lambda>k. (k, group_total key val rows k)) (first_encountered (map key rows))"





text \<open>A numeric column as one round of the fill loop leaves it.\<close>

definition filled_column :: "bool \<Rightarrow> cell list \<Rightarrow> cell list" where
  "filled_column copy_on_write col =
     (if copy_on_write then col else map (fillna (series_mean col)) col)"

text \<open>
  A column after the fill, as the specification words it: every missing entry holds the
  arithmetic mean of the entries that were present (it stays missing when none was), and
  every entry that was present is as it was.
\<close>

definition mean_filled :: "cell list \<Rightarrow> cell list \<Rightarrow> bool" where
  "mean_filled old new =
     list_all2 (\<lambda>c c'. c' = (case c of
                               Some v \<Rightarrow> Some v
                             | None \<Rightarrow> if dropna old = [] then None
                                       else Some (sum_list (dropna old) / of_nat (length (dropna old)))))
       old new"


subsection \<open>Sample data\<close>

definition sample_parse :: "string \<Rightarrow> timestamp option" where
  "sample_parse =
     map_of [(''2024-01-15'', \<lparr>year = 2024, month = Jan, day = 15\<rparr>),
             (''2024-03-10'', \<lparr>year = 2024, month = Mar, day = 10\<rparr>),
             (''2024-04-02'', \<lparr>year = 2024, month = Apr, day = 2\<rparr>),
             (''2024-05-20'', \<lparr>year = 2024, month = May, day = 20\<rparr>)]"

definition sale_row ::
  "string \<Rightarrow> string option \<Rightarrow> string option \<Rightarrow> cell \<Rightarrow> cell \<Rightarrow> cell \<Rightarrow> raw_row" where
  "sale_row d p r q pr t =
     \<lparr>Date = Some d, Product = p, Region = r, Quantity = q, Price = pr, Total_Sales = t\<rparr>"

text \<open>Three sales, one without a price; the prices are 10, missing, 30.\<close>

definition sample_table :: "raw_row list" where
  "sample_table =
     [sale_row ''2024-03-10'' (Some ''Pen'') (Some ''North'') (Some 4) (Some 10) (Some 40),
      sale_row ''2024-01-15'' (Some ''Ink'') (Some ''South'') (Some 2) None (Some 60),
      sale_row ''2024-05-20'' (Some ''Pen'') (Some ''South'') (Some 1) (Some 30) (Some 30)]"

text \<open>Two products that sell the same quantity, the later in the alphabet first.\<close>

definition tie_table :: "raw_row list" where
  "tie_table =
     [sale_row ''2024-03-10'' (Some ''Pen'') (Some ''North'') (Some 5) (Some 10) (Some 50),
      sale_row ''2024-01-15'' (Some ''Ink'') (Some ''South'') (Some 5) (Some 30) (Some 150)]"



definition sample_files :: "raw_row list \<Rightarrow> string \<Rightarrow> read_result" where
  "sample_files rows path = (if path = ''sales_data.csv'' then Table rows else FileNotFound)"

definition loaded :: "raw_row list \<Rightarrow> analyzer" where
  "loaded rows = (SalesAnalyzer ''sales_data.csv'')\<lparr>df := Some (Raw rows)\<rparr>"

definition clean_row ::
  "timestamp \<Rightarrow> string option \<Rightarrow> string option \<Rightarrow> cell \<Rightarrow> cell \<Rightarrow> cell \<Rightarrow> clean_row" where
  "clean_row d p r q pr t =
     \<lparr>Date = Some d, Product = p, Region = r, Quantity = q, Price = pr, Total_Sales = t,
      Month = Some (month_name (month d))\<rparr>"

text \<open>The sample table as \<open>clean_data\<close> leaves it: the missing price is 20.\<close>

definition sample_cleaned :: "clean_row list" where
  "sample_cleaned =
     [clean_row \<lparr>year = 2024, month = Mar, day = 10\<rparr>
        (Some ''Pen'') (Some ''North'') (Some 4) (Some 10) (Some 40),
      clean_row \<lparr>year = 2024, month = Jan, day = 15\<rparr>
        (Some ''Ink'') (Some ''South'') (Some 2) (Some 20) (Some 60),
      clean_row \<lparr>year = 2024, month = May, day = 20\<rparr>
        (Some ''Pen'') (Some ''South'') (Some 1) (Some 30) (Some 30)]"

definition cleaned :: "clean_row list \<Rightarrow> analyzer" where
  "cleaned rows = (SalesAnalyzer ''sales_data.csv'')\<lparr>df := Some (Cleaned rows)\<rparr>"

text \<open>The tables above as \<open>clean_data\<close> leaves them, and the metrics computed from them.\<close>

definition sample_metrics :: metrics where
  "sample_metrics =
     \<lparr>total_sales = Some 130, best_product = Some ''Pen'', best_product_qty = Some 5,
      avg_transaction = Some (Some (130 / 3)),
      regional_sales = Some [(''South'', 90), (''North'', 40)],
      monthly_sales = Some [(''January'', 60), (''March'', 40), (''May'', 30)]\<rparr>"

definition tie_cleaned :: "clean_row list" where
  "tie_cleaned =
     [clean_row \<lparr>year = 2024, month = Mar, day = 10\<rparr>
        (Some ''Pen'') (Some ''North'') (Some 5) (Some 10) (Some 50),
      clean_row \<lparr>year = 2024, month = Jan, day = 15\<rparr>
        (Some ''Ink'') (Some ''South'') (Some 5) (Some 30) (Some 150)]"

definition tie_metrics :: metrics where
  "tie_metrics =
     \<lparr>total_sales = Some 200, best_product = Some ''Ink'', best_product_qty = Some 5,
      avg_transaction = Some (Some 100),
      regional_sales = Some [(''South'', 150), (''North'', 50)],
      monthly_sales = Some [(''January'', 150), (''March'', 50)]\<rparr>"





text \<open>The sample table as \<open>clean_data\<close> leaves it under copy-on-write.\<close>

definition sample_unfilled :: "clean_row list" where
  "sample_unfilled =
     [clean_row \<lparr>year = 2024, month = Mar, day = 10\<rparr>
        (Some ''Pen'') (Some ''North'') (Some 4) (Some 10) (Some 40),
      clean_row \<lparr>year = 2024, month = Jan, day = 15\<rparr>
        (Some ''Ink'') (Some ''South'') (Some 2) None (Some 60),
      clean_row \<lparr>year = 2024, month = May, day = 20\<rparr>
        (Some ''Pen'') (Some ''South'') (Some 1) (Some 30) (Some 30)]"


text \<open>
  A drawing routine for the examples. It refuses what \<open>plt.pie\<close> refuses: a negative
  wedge size, and wedge sizes that are all zero.
\<close>

definition sample_draw :: "figure \<Rightarrow> error option" where
  "sample_draw fig =
     (case fig of
        ProductPerformance bars \<Rightarrow> None
      | RegionalSales wedges \<Rightarrow>
          if list_ex (\<lambda>kv. snd kv < 0) wedges
             \<or> (wedges \<noteq> [] \<and> list_all (\<lambda>kv. snd kv = 0) wedges)
          then Some ValueError else None)"






definition computed :: "clean_row list \<Rightarrow> metrics \<Rightarrow> analyzer" where
  "computed rows m = (cleaned rows)\<lparr>metrics := m\<rparr>"



section \<open>Properties\<close>

subsection \<open>Columns and missing values\<close>

lemma isnull_any_iff: "isnull_any col \<longleftrightarrow> None \<in> set col"
  by (auto simp: isnull_any_def list_ex_iff)

lemma set_dropna: "set (dropna col) = {v. Some v \<in> set col}"
  by (induction col) (auto split: option.splits)

lemma dropna_Nil_iff: "dropna col = [] \<longleftrightarrow> (\<forall>c\<in>set col. c = None)"
  by (induction col) (auto split: option.splits)


lemma fillna_None [simp]: "fillna None c = c"
  by (simp add: fillna_def split: option.splits)

lemma fillna_Some [simp]: "fillna v (Some x) = Some x"
  by (simp add: fillna_def)

lemma map_fillna_no_missing: "None \<notin> set col \<Longrightarrow> map (fillna v) col = col"
  by (induction col) (auto simp: fillna_def split: option.splits)

subsection \<open>The numeric fill\<close>

lemma length_fill_column [simp]: "length (fill_column cow get upd rows) = length rows"
  by (simp add: fill_column_def Let_def)

lemma fill_column_other:
  assumes "\<And>f r. h (upd f r) = h r"
  shows "map h (fill_column cow get upd rows) = map h rows"
  using assms by (simp add: fill_column_def Let_def)

lemma filled_column_no_missing: "None \<notin> set col \<Longrightarrow> filled_column cow col = col"
  by (simp add: filled_column_def map_fillna_no_missing)

lemma fill_column_get:
  assumes "\<And>f r. get (upd f r) = f (get r)"
  shows "map get (fill_column cow get upd rows) = filled_column cow (map get rows)"
proof (cases "isnull_any (map get rows)")
  case True
  then show ?thesis using assms by (simp add: fill_column_def filled_column_def Let_def)
next
  case False
  then have "None \<notin> set (map get rows)" by (simp add: isnull_any_iff)
  then have "filled_column cow (map get rows) = map get rows"
    by (rule filled_column_no_missing)
  then show ?thesis using False by (simp add: fill_column_def)
qed

lemma length_fill_numeric [simp]: "length (fill_numeric cow rows) = length rows"
  by (simp add: fill_numeric_def)

lemma fill_numeric_Date: "map Date (fill_numeric cow rows) = map Date rows"
  by (simp add: fill_numeric_def fill_column_other)

lemma fill_numeric_Product: "map Product (fill_numeric cow rows) = map Product rows"
  by (simp add: fill_numeric_def fill_column_other)

lemma fill_numeric_Region: "map Region (fill_numeric cow rows) = map Region rows"
  by (simp add: fill_numeric_def fill_column_other)

lemma fill_numeric_Quantity:
  "map Quantity (fill_numeric cow rows) = filled_column cow (map Quantity rows)"
  by (simp add: fill_numeric_def fill_column_other fill_column_get)

lemma fill_numeric_Price:
  "map Price (fill_numeric cow rows) = filled_column cow (map Price rows)"
  by (simp add: fill_numeric_def fill_column_other fill_column_get)

lemma fill_numeric_Total_Sales:
  "map Total_Sales (fill_numeric cow rows) = filled_column cow (map Total_Sales rows)"
  by (simp add: fill_numeric_def fill_column_other fill_column_get)

subsection \<open>Date parsing\<close>

lemma to_datetime_Some:
  "to_datetime parse cs = Some ds \<Longrightarrow> ds = map (\<lambda>c. Option.bind c parse) cs"
  by (induction cs arbitrary: ds) (auto split: option.splits)

lemma to_datetime_succeeds:
  "(\<exists>ds. to_datetime parse cs = Some ds) \<longleftrightarrow> (\<forall>t. Some t \<in> set cs \<longrightarrow> parse t \<noteq> None)"
  by (induction cs) (auto split: option.splits)

subsection \<open>Grouping, sorting and the maximum\<close>

lemma groupby_sum_rows:
  "groupby_sum (map (\<lambda>r. (key r, val r)) rows)
   = map (\<lambda>k. (k, group_total key val rows k)) (sort (remdups (dropna (map key rows))))"
  by (simp add: groupby_sum_def group_total_def filter_map comp_def)

lemma groupby_keys:
  "map fst (groupby_sum (map (\<lambda>r. (key r, val r)) rows)) = sort (remdups (dropna (map key rows)))"
  by (simp add: groupby_sum_rows comp_def)

lemma set_group_keys:
  "set (sort (remdups (dropna (map key rows)))) = {k. Some k \<in> key ` set rows}"
  by (simp add: set_dropna)


lemma first_max_None_iff: "first_max s = None \<longleftrightarrow> s = []"
  by (induction s rule: first_max.induct) (auto split: option.splits)

lemma first_max_mem: "first_max s = Some kv \<Longrightarrow> kv \<in> set s"
  by (induction s arbitrary: kv rule: first_max.induct) (auto split: option.splits if_splits)

lemma first_max_ge_all: "first_max s = Some (k, v) \<Longrightarrow> \<forall>kv\<in>set s. snd kv \<le> v"
proof (induction s arbitrary: k v rule: first_max.induct)
  case 1
  then show ?case by simp
next
  case (2 k0 v0 s)
  show ?case
  proof (cases "first_max s")
    case None
    with 2 show ?thesis by (auto simp: first_max_None_iff)
  next
    case (Some kv)
    obtain k' v' where kv: "kv = (k', v')" by (cases kv)
    from 2(1)[of k' v'] Some kv have ih: "\<forall>kv\<in>set s. snd kv \<le> v'" by simp
    show ?thesis
    proof (cases "v0 < v'")
      case True
      with 2(2) Some kv have "v = v'" by simp
      with True ih show ?thesis by auto
    next
      case False
      with 2(2) Some kv have "v = v0" by simp
      with False ih show ?thesis by fastforce
    qed
  qed
qed

lemma first_max_ge: "first_max s = Some (k, v) \<Longrightarrow> (k', v') \<in> set s \<Longrightarrow> v' \<le> v"
  using first_max_ge_all by fastforce

lemma first_max_first:
  "first_max s = Some (k, v) \<Longrightarrow> \<exists>pre post. s = pre @ (k, v) # post \<and> (\<forall>kv\<in>set pre. snd kv < v)"
proof (induction s arbitrary: k v rule: first_max.induct)
  case 1
  then show ?case by simp
next
  case (2 k0 v0 s)
  show ?case
  proof (cases "first_max s")
    case None
    with 2 show ?thesis by (auto simp: first_max_None_iff intro: exI[of _ "[]"])
  next
    case (Some kv)
    obtain k' v' where kv: "kv = (k', v')" by (cases kv)
    show ?thesis
    proof (cases "v0 < v'")
      case True
      with 2 Some kv have eq: "k = k'" "v = v'" by auto
      from 2(1)[of k' v'] Some kv obtain pre post where
        "s = pre @ (k', v') # post" "\<forall>kv\<in>set pre. snd kv < v'" by auto
      with True eq have "(k0, v0) # s = ((k0, v0) # pre) @ (k, v) # post \<and> (\<forall>kv\<in>set ((k0, v0) # pre). snd kv < v)"
        by auto
      then show ?thesis by blast
    next
      case False
      with 2 Some kv have "k = k0" "v = v0" by auto
      then have "(k0, v0) # s = [] @ (k, v) # s \<and> (\<forall>kv\<in>set []. snd kv < v)" by simp
      then show ?thesis by blast
    qed
  qed
qed

lemma first_max_hd_filter:
  assumes "first_max s = Some (k, v)"
  shows "hd (filter (\<lambda>kv. snd kv = v) s) = (k, v)"
proof -
  from first_max_first[OF assms] obtain pre post where
    s: "s = pre @ (k, v) # post" and pre: "\<forall>kv\<in>set pre. snd kv < v" by blast
  from pre have "filter (\<lambda>kv. snd kv = v) pre = []" by (auto simp: filter_empty_conv)
  then show ?thesis by (simp add: s)
qed


subsection \<open>Descending sorts\<close>

lemma descending_sort_stable: "descending_sort stable_descending"
proof -
  have "sorted_wrt (\<lambda>x y. snd y \<le> snd x) (stable_descending s)" for s :: series
  proof -
    have "sorted (map (\<lambda>kv. - snd kv) (sort_key (\<lambda>kv. - snd kv) s))"
      by (rule sorted_sort_key)
    then show ?thesis by (simp add: stable_descending_def sorted_map)
  qed
  then show ?thesis by (simp add: descending_sort_def stable_descending_def)
qed

lemma descending_sort_mset: "descending_sort sv \<Longrightarrow> mset (sv s) = mset s"
  by (simp add: descending_sort_def)

lemma descending_sort_set: "descending_sort sv \<Longrightarrow> set (sv s) = set s"
  using descending_sort_mset by (metis set_mset_mset)



subsection \<open>What clean_data leaves of a loaded table\<close>

lemma map2_with_date_cols:
  assumes "length ds = length rows"
  shows "map Date (map2 with_date rows ds) = ds"
    and "map Product (map2 with_date rows ds) = map Product rows"
    and "map Region (map2 with_date rows ds) = map Region rows"
    and "map Quantity (map2 with_date rows ds) = map Quantity rows"
    and "map Price (map2 with_date rows ds) = map Price rows"
    and "map Total_Sales (map2 with_date rows ds) = map Total_Sales rows"
    and "map Month (map2 with_date rows ds) = map month_of ds"
    and "map (\<lambda>r. month_of (Date r)) (map2 with_date rows ds) = map month_of ds"
  using assms by (induction rows ds rule: list_induct2'; simp add: with_date_def)+

text \<open>What \<open>clean_data\<close> leaves of a loaded table, column by column.\<close>

lemma clean_data_Raw:
  assumes "df a = Some (Raw rows)" and "clean_data cow parse a = Inr (a', ok)"
  obtains rows' where
    "ok" and "a' = a\<lparr>df := Some (Cleaned rows')\<rparr>"
    and "length rows' = length rows"
    and "map Date rows' = map (\<lambda>r. Option.bind (Date r) parse) rows"
    and "map Product rows' = map Product rows"
    and "map Region rows' = map Region rows"
    and "map Quantity rows' = filled_column cow (map Quantity rows)"
    and "map Price rows' = filled_column cow (map Price rows)"
    and "map Total_Sales rows' = filled_column cow (map Total_Sales rows)"
    and "map Month rows' = map (\<lambda>r. month_of (Date r)) rows'"
proof -
  from assms obtain ds where
    ds: "to_datetime parse (map Date (fill_numeric cow rows)) = Some ds"
    and a': "a' = a\<lparr>df := Some (Cleaned (map2 with_date (fill_numeric cow rows) ds))\<rparr>"
    and ok: "ok"
    by (auto simp: clean_data_def Let_def split: option.splits)
  from to_datetime_Some[OF ds] have dsq: "ds = map (\<lambda>c. Option.bind c parse) (map Date rows)"
    by (simp add: fill_numeric_Date)
  then have len: "length ds = length (fill_numeric cow rows)" by simp
  let ?rows' = "map2 with_date (fill_numeric cow rows) ds"
  show thesis
  proof (rule that[of ?rows'])
    show "ok" by (rule ok)
    show "a' = a\<lparr>df := Some (Cleaned ?rows')\<rparr>" by (rule a')
    show "length ?rows' = length rows" using len by simp
    show "map Date ?rows' = map (\<lambda>r. Option.bind (Date r) parse) rows"
      using map2_with_date_cols(1)[OF len] dsq by (simp add: comp_def)
    show "map Product ?rows' = map Product rows"
      using map2_with_date_cols(2)[OF len] by (simp add: fill_numeric_Product)
    show "map Region ?rows' = map Region rows"
      using map2_with_date_cols(3)[OF len] by (simp add: fill_numeric_Region)
    show "map Quantity ?rows' = filled_column cow (map Quantity rows)"
      using map2_with_date_cols(4)[OF len] by (simp only: fill_numeric_Quantity)
    show "map Price ?rows' = filled_column cow (map Price rows)"
      using map2_with_date_cols(5)[OF len] by (simp only: fill_numeric_Price)
    show "map Total_Sales ?rows' = filled_column cow (map Total_Sales rows)"
      using map2_with_date_cols(6)[OF len] by (simp only: fill_numeric_Total_Sales)
    show "map Month ?rows' = map (\<lambda>r. month_of (Date r)) ?rows'"
      using map2_with_date_cols(7)[OF len] map2_with_date_cols(8)[OF len] by simp
  qed
qed

lemma clean_data_returns:
  assumes "df a = Some (Raw rows)"
  shows "(\<exists>a'. clean_data cow parse a = Inr (a', True))
         \<longleftrightarrow> (\<forall>t. Some t \<in> Date ` set rows \<longrightarrow> parse t \<noteq> None)"
proof -
  have "(\<exists>a'. clean_data cow parse a = Inr (a', True))
        \<longleftrightarrow> (\<exists>ds. to_datetime parse (map Date (fill_numeric cow rows)) = Some ds)"
    using assms by (auto simp: clean_data_def Let_def split: option.splits)
  then show ?thesis by (simp add: to_datetime_succeeds fill_numeric_Date)
qed

subsection \<open>The cleaner\<close>

text \<open>
  C9. When no table is loaded, \<open>clean_data\<close> returns false and the analyzer it leaves is
  the analyzer it was given: no field changes.
\<close>

theorem clean_data_without_table:
  "df a = None \<Longrightarrow> clean_data copy_on_write parse a = Inr (a, False)"
  by (simp add: clean_data_def)

theorem clean_data_without_table_witness:
  "df (SalesAnalyzer ''sales_data.csv'') = None
   \<and> clean_data False sample_parse (SalesAnalyzer ''sales_data.csv'')
       = Inr (SalesAnalyzer ''sales_data.csv'', False)
   \<and> clean_data True sample_parse (SalesAnalyzer ''sales_data.csv'')
       = Inr (SalesAnalyzer ''sales_data.csv'', False)"
proof -
  have h: "df (SalesAnalyzer ''sales_data.csv'') = None" by (simp add: SalesAnalyzer_def)
  show ?thesis
    using h clean_data_without_table[OF h, of False sample_parse]
      clean_data_without_table[OF h, of True sample_parse]
    by simp
qed

text \<open>
  When the fill reaches the frame (pandas before copy-on-write), each of the columns
  Quantity, Price and Total_Sales is filled with the mean of its present values.
\<close>

lemma mean_filled_fillna: "mean_filled col (filled_column False col)"
  by (auto simp: mean_filled_def filled_column_def list_all2_conv_all_nth series_mean_def
                 fillna_def Let_def
           split: option.splits)

lemma clean_data_fills_when_writing_through:
  assumes "df a = Some (Raw rows)" and "clean_data False parse a = Inr (a', ok)"
  shows "\<exists>rows'. df a' = Some (Cleaned rows')
           \<and> mean_filled (map Quantity rows) (map Quantity rows')
           \<and> mean_filled (map Price rows) (map Price rows')
           \<and> mean_filled (map Total_Sales rows) (map Total_Sales rows')"
proof -
  from clean_data_Raw[OF assms] obtain rows' where
    a': "a' = a\<lparr>df := Some (Cleaned rows')\<rparr>"
    and q: "map Quantity rows' = filled_column False (map Quantity rows)"
    and p: "map Price rows' = filled_column False (map Price rows)"
    and t: "map Total_Sales rows' = filled_column False (map Total_Sales rows)"
    by metis
  have 1: "df a' = Some (Cleaned rows')" using a' by simp
  have 2: "mean_filled (map Quantity rows) (map Quantity rows')"
    by (simp only: q mean_filled_fillna)
  have 3: "mean_filled (map Price rows) (map Price rows')"
    by (simp only: p mean_filled_fillna)
  have 4: "mean_filled (map Total_Sales rows) (map Total_Sales rows')"
    by (simp only: t mean_filled_fillna)
  show ?thesis using 1 2 3 4 by blast
qed

text \<open>
  C2 fails under copy-on-write. The sample table has the prices 10, missing, 30, whose
  mean is 20. \<open>clean_data\<close> computes this mean and calls the fill, and the frame it leaves
  still has the prices 10, missing, 30; with the fill reaching the frame the prices are
  10, 20, 30.
\<close>

theorem clean_data_fill_lost_under_copy_on_write:
  "map Price sample_table = [Some 10, None, Some 30]
   \<and> series_mean (map Price sample_table) = Some 20
   \<and> clean_data True sample_parse (loaded sample_table) = Inr (cleaned sample_unfilled, True)
   \<and> map Price sample_unfilled = [Some 10, None, Some 30]
   \<and> clean_data False sample_parse (loaded sample_table) = Inr (cleaned sample_cleaned, True)
   \<and> map Price sample_cleaned = [Some 10, Some 20, Some 30]"
proof -
  have 1: "map Price sample_table = [Some 10, None, Some 30]"
    by (simp add: sample_table_def sale_row_def)
  have 2: "series_mean (map Price sample_table) = Some 20"
    unfolding 1 by (simp add: series_mean_def)
  have 3: "clean_data True sample_parse (loaded sample_table)
           = Inr (cleaned sample_unfilled, True)"
    by code_simp
  have 4: "map Price sample_unfilled = [Some 10, None, Some 30]"
    by (simp add: sample_unfilled_def clean_row_def)
  have 5: "clean_data False sample_parse (loaded sample_table)
           = Inr (cleaned sample_cleaned, True)"
    by code_simp
  have 6: "map Price sample_cleaned = [Some 10, Some 20, Some 30]"
    by (simp add: sample_cleaned_def clean_row_def)
  show ?thesis using 1 2 3 4 5 6 by blast
qed

subsection \<open>The frame of clean_data and the loader\<close>

lemma filled_column_present:
  assumes "i < length col" and "col ! i \<noteq> None"
  shows "filled_column cow col ! i = col ! i"
  using assms by (auto simp: filled_column_def fillna_def split: option.splits)

text \<open>
  C10. On a loaded table, \<open>clean_data\<close> keeps the number of records, the Product and
  Region columns, the path and the metrics of the analyzer. A numeric cell that is
  present keeps its value, so that the numeric columns change only where a value is
  missing. The Date column holds the parsed dates (a missing date stays missing), and the
  new Month column holds the month name of each date.
\<close>

theorem clean_data_frame:
  assumes "df a = Some (Raw rows)" and "clean_data copy_on_write parse a = Inr (a', ok)"
  shows "\<exists>rows'. a' = a\<lparr>df := Some (Cleaned rows')\<rparr>
           \<and> length rows' = length rows
           \<and> map Product rows' = map Product rows
           \<and> map Region rows' = map Region rows
           \<and> (\<forall>i<length rows.
                 (Quantity (rows ! i) \<noteq> None \<longrightarrow> Quantity (rows' ! i) = Quantity (rows ! i))
               \<and> (Price (rows ! i) \<noteq> None \<longrightarrow> Price (rows' ! i) = Price (rows ! i))
               \<and> (Total_Sales (rows ! i) \<noteq> None
                    \<longrightarrow> Total_Sales (rows' ! i) = Total_Sales (rows ! i)))
           \<and> map Date rows' = map (\<lambda>r. Option.bind (Date r) parse) rows
           \<and> map Month rows' = map (\<lambda>r. month_of (Date r)) rows'"
proof -
  from clean_data_Raw[OF assms] obtain rows' where
    a': "a' = a\<lparr>df := Some (Cleaned rows')\<rparr>"
    and len: "length rows' = length rows"
    and d: "map Date rows' = map (\<lambda>r. Option.bind (Date r) parse) rows"
    and pr: "map Product rows' = map Product rows"
    and rg: "map Region rows' = map Region rows"
    and q: "map Quantity rows' = filled_column copy_on_write (map Quantity rows)"
    and p: "map Price rows' = filled_column copy_on_write (map Price rows)"
    and t: "map Total_Sales rows' = filled_column copy_on_write (map Total_Sales rows)"
    and m: "map Month rows' = map (\<lambda>r. month_of (Date r)) rows'"
    by metis
  have cells: "(Quantity (rows ! i) \<noteq> None \<longrightarrow> Quantity (rows' ! i) = Quantity (rows ! i))
             \<and> (Price (rows ! i) \<noteq> None \<longrightarrow> Price (rows' ! i) = Price (rows ! i))
             \<and> (Total_Sales (rows ! i) \<noteq> None
                  \<longrightarrow> Total_Sales (rows' ! i) = Total_Sales (rows ! i))"
    if i: "i < length rows" for i
  proof -
    have "Quantity (rows' ! i) = map Quantity rows' ! i"
         "Price (rows' ! i) = map Price rows' ! i"
         "Total_Sales (rows' ! i) = map Total_Sales rows' ! i"
      using i len by simp_all
    then show ?thesis using i by (simp add: q p t filled_column_present)
  qed
  show ?thesis
    using a' len pr rg d m cells by blast
qed

theorem clean_data_frame_witness:
  "df (loaded sample_table) = Some (Raw sample_table)
   \<and> clean_data False sample_parse (loaded sample_table) = Inr (cleaned sample_cleaned, True)
   \<and> cleaned sample_cleaned = (loaded sample_table)\<lparr>df := Some (Cleaned sample_cleaned)\<rparr>
   \<and> length sample_cleaned = length sample_table
   \<and> map Product sample_cleaned = map Product sample_table
   \<and> map Region sample_cleaned = map Region sample_table
   \<and> map Month sample_cleaned = [Some ''March'', Some ''January'', Some ''May'']"
proof -
  have h1: "df (loaded sample_table) = Some (Raw sample_table)"
    by (simp add: loaded_def)
  have h2: "clean_data False sample_parse (loaded sample_table)
            = Inr (cleaned sample_cleaned, True)"
    by code_simp
  have e: "cleaned sample_cleaned = (loaded sample_table)\<lparr>df := Some (Cleaned rows')\<rparr>
           \<longleftrightarrow> rows' = sample_cleaned" for rows'
    by (auto simp: cleaned_def loaded_def SalesAnalyzer_def)
  have m: "map (\<lambda>r. month_of (Date r)) sample_cleaned
           = [Some ''March'', Some ''January'', Some ''May'']"
    by (simp add: sample_cleaned_def clean_row_def month_of_def)
  from clean_data_frame[OF h1 h2] obtain rows' where
    r: "cleaned sample_cleaned = (loaded sample_table)\<lparr>df := Some (Cleaned rows')\<rparr>"
    and c: "length rows' = length sample_table"
           "map Product rows' = map Product sample_table"
           "map Region rows' = map Region sample_table"
           "map Month rows' = map (\<lambda>r. month_of (Date r)) rows'"
    by blast
  from r have "rows' = sample_cleaned" by (simp only: e)
  with r c m h1 h2 show ?thesis by simp
qed

text \<open>
  C8. \<open>load_data\<close> returns true exactly when the file can be read, and then prints the
  shape (record count) and the column list; it returns false exactly when the file does
  not exist. Any other failure of the read is not caught. When the file does not exist,
  \<open>main\<close> runs no further stage and still returns normally.
\<close>

theorem load_data_outcomes:
  "((\<exists>a' out. load_data read_csv a = Inr (a', True, out))
      \<longleftrightarrow> (\<exists>rows. read_csv (file_path a) = Table rows))
   \<and> (\<forall>rows. read_csv (file_path a) = Table rows \<longrightarrow>
         load_data read_csv a
         = Inr (a\<lparr>df := Some (Raw rows)\<rparr>, True,
                [LoadedShape (length rows) (length columns), Columns columns]))
   \<and> ((\<exists>a' out. load_data read_csv a = Inr (a', False, out))
        \<longleftrightarrow> read_csv (file_path a) = FileNotFound)
   \<and> (read_csv (file_path a) = FileNotFound \<longrightarrow>
         load_data read_csv a = Inr (a, False, [FileNotFoundMessage (file_path a)]))
   \<and> (read_csv (file_path a) = ReadFailure \<longrightarrow> load_data read_csv a = Inl ReadError)
   \<and> (read_csv ''sales_data.csv'' = FileNotFound \<longrightarrow>
         main read_csv copy_on_write parse sort_values draw
         = Inr (SalesAnalyzer ''sales_data.csv'', []))"
  by (auto simp: load_data_def main_def SalesAnalyzer_def split: read_result.splits)

theorem load_data_outcomes_witness:
  "(\<lambda>path. FileNotFound) ''sales_data.csv'' = FileNotFound
   \<and> load_data (\<lambda>path. FileNotFound) (SalesAnalyzer ''sales_data.csv'')
       = Inr (SalesAnalyzer ''sales_data.csv'', False, [FileNotFoundMessage ''sales_data.csv''])
   \<and> main (\<lambda>path. FileNotFound) False sample_parse stable_descending sample_draw
       = Inr (SalesAnalyzer ''sales_data.csv'', [])
   \<and> sample_files sample_table ''sales_data.csv'' = Table sample_table
   \<and> load_data (sample_files sample_table) (SalesAnalyzer ''sales_data.csv'')
       = Inr (loaded sample_table, True, [LoadedShape 3 6, Columns columns])"
proof -
  have f: "file_path (SalesAnalyzer ''sales_data.csv'') = ''sales_data.csv''"
    by (simp add: SalesAnalyzer_def)
  have t: "sample_files sample_table ''sales_data.csv'' = Table sample_table"
    by (simp add: sample_files_def)
  have n: "length sample_table = 3" "length columns = 6"
    by (simp_all add: sample_table_def columns_def)
  show ?thesis
    using load_data_outcomes[of "\<lambda>path. FileNotFound" "SalesAnalyzer ''sales_data.csv''"
            False sample_parse stable_descending sample_draw]
          load_data_outcomes[of "sample_files sample_table" "SalesAnalyzer ''sales_data.csv''"
            False sample_parse stable_descending sample_draw]
    by (simp add: f t n loaded_def)
qed

subsection \<open>The metrics of a cleaned table\<close>

lemma calculate_metrics_Cleaned:
  assumes "df a = Some (Cleaned rows)" and "calculate_metrics sv a = Inr (a', m)"
  shows "a' = a\<lparr>metrics := m\<rparr>"
    and "total_sales m = Some (series_sum (map Total_Sales rows))"
    and "best_product m = idxmax (product_sales sv rows)"
    and "best_product_qty m = series_max (product_sales sv rows)"
    and "avg_transaction m = Some (series_mean (map Total_Sales rows))"
    and "regional_sales m = Some (region_sales sv rows)"
    and "monthly_sales m = Some (month_sales rows)"
    and "idxmax (product_sales sv rows) \<noteq> None"
  using assms by (auto simp: calculate_metrics_def Let_def split: option.splits)

lemma product_sales_Nil_iff:
  assumes "descending_sort sv"
  shows "product_sales sv rows = [] \<longleftrightarrow> (\<forall>r\<in>set rows. Product r = None)"
proof -
  have "product_sales sv rows = [] \<longleftrightarrow> set (product_sales sv rows) = {}" by simp
  also have "\<dots> \<longleftrightarrow> set (dropna (map Product rows)) = {}"
    by (simp add: product_sales_def descending_sort_set[OF assms] groupby_sum_rows)
  also have "\<dots> \<longleftrightarrow> (\<forall>r\<in>set rows. Product r = None)"
    by (simp add: dropna_Nil_iff)
  finally show ?thesis .
qed

text \<open>\<open>calculate_metrics\<close> returns on a cleaned table exactly when some record has a product.\<close>

lemma calculate_metrics_returns:
  assumes "df a = Some (Cleaned rows)" and "descending_sort sv"
  shows "(\<exists>a' m. calculate_metrics sv a = Inr (a', m)) \<longleftrightarrow> (\<exists>r\<in>set rows. Product r \<noteq> None)"
proof -
  have "(\<exists>a' m. calculate_metrics sv a = Inr (a', m)) \<longleftrightarrow> idxmax (product_sales sv rows) \<noteq> None"
    using assms(1) by (auto simp: calculate_metrics_def Let_def split: option.splits)
  also have "\<dots> \<longleftrightarrow> product_sales sv rows \<noteq> []"
    by (simp add: idxmax_def first_max_None_iff)
  finally show ?thesis by (simp add: product_sales_Nil_iff[OF assms(2)])
qed


subsection \<open>Exact columns and the int64 sum\<close>









subsection \<open>The best product\<close>

text \<open>
  C3, as the program has it. On a cleaned table with an exact Quantity column on which
  \<open>calculate_metrics\<close> returns, whatever descending sort the library runs,
  \<open>best_product\<close> is a product of the table whose summed quantity is the maximum over all
  products, and \<open>best_product_qty\<close> is that sum. In particular a product that alone
  holds the maximum is the best product. Nothing is said on which of several tied
  products is reported.
\<close>

theorem best_product_metric:
  assumes "df a = Some (Cleaned rows)"
    and "descending_sort sort_values"
    and "exact_column (map Quantity rows)"
    and "calculate_metrics sort_values a = Inr (a', m)"
  shows "\<exists>p. best_product m = Some p \<and> Some p \<in> Product ` set rows
           \<and> best_product_qty m = Some (group_total Product Quantity rows p)
           \<and> (\<forall>p'. Some p' \<in> Product ` set rows \<longrightarrow>
                 group_total Product Quantity rows p' \<le> group_total Product Quantity rows p)
           \<and> (\<forall>p'. Some p' \<in> Product ` set rows
                 \<and> (\<forall>p''. Some p'' \<in> Product ` set rows \<and> p'' \<noteq> p' \<longrightarrow>
                       group_total Product Quantity rows p''
                       < group_total Product Quantity rows p')
                 \<longrightarrow> p = p')"
proof -
  let ?g = "group_total Product Quantity rows"
  let ?K = "sort (remdups (dropna (map Product rows)))"
  let ?G = "map (\<lambda>k. (k, ?g k)) ?K"
  note cm = calculate_metrics_Cleaned[OF assms(1,4)]
  have ps: "product_sales sort_values rows = sort_values ?G"
    by (simp add: product_sales_def groupby_sum_rows)
  have setG: "set (sort_values ?G) = set ?G" by (rule descending_sort_set[OF assms(2)])
  from cm(8) obtain p q where fm: "first_max (sort_values ?G) = Some (p, q)"
    by (cases "first_max (sort_values ?G)") (auto simp: idxmax_def ps)
  have "(p, q) \<in> set ?G" using first_max_mem[OF fm] setG by simp
  then have pK: "p \<in> set ?K" and q: "q = ?g p" by auto
  have setK: "set ?K = {k. Some k \<in> Product ` set rows}" by (rule set_group_keys)
  have bp: "best_product m = Some p" using cm(3) fm by (simp add: idxmax_def ps)
  have bq: "best_product_qty m = Some (?g p)" using cm(4) fm q by (simp add: series_max_def ps)
  have mem: "Some p \<in> Product ` set rows" using pK setK by simp
  have mx: "?g p' \<le> ?g p" if "Some p' \<in> Product ` set rows" for p'
  proof -
    from that setK have "(p', ?g p') \<in> set ?G" by auto
    then have "(p', ?g p') \<in> set (sort_values ?G)" using setG by simp
    from first_max_ge[OF fm this] q show ?thesis by simp
  qed
  have uq: "p = p'"
    if "Some p' \<in> Product ` set rows"
      and "\<forall>p''. Some p'' \<in> Product ` set rows \<and> p'' \<noteq> p' \<longrightarrow> ?g p'' < ?g p'" for p'
  proof (rule ccontr)
    assume "p \<noteq> p'"
    with that(2) mem have "?g p < ?g p'" by simp
    moreover from mx[OF that(1)] have "?g p' \<le> ?g p" .
    ultimately show False by simp
  qed
  show ?thesis using bp mem bq mx uq by blast
qed

theorem best_product_metric_witness:
  "df (cleaned sample_cleaned) = Some (Cleaned sample_cleaned)
   \<and> descending_sort stable_descending
   \<and> exact_column (map Quantity sample_cleaned)
   \<and> calculate_metrics stable_descending (cleaned sample_cleaned)
       = Inr (computed sample_cleaned sample_metrics, sample_metrics)
   \<and> best_product sample_metrics = Some ''Pen''
   \<and> best_product_qty sample_metrics = Some (group_total Product Quantity sample_cleaned ''Pen'')
   \<and> group_total Product Quantity sample_cleaned ''Pen'' = 5
   \<and> group_total Product Quantity sample_cleaned ''Ink'' = 2"
proof -
  have h1: "df (cleaned sample_cleaned) = Some (Cleaned sample_cleaned)"
    by (simp add: cleaned_def)
  have h2: "descending_sort stable_descending" by (rule descending_sort_stable)
  have h3: "exact_column (map Quantity sample_cleaned)"
    by (simp add: sample_cleaned_def clean_row_def exact_column_def)
  have h4: "calculate_metrics stable_descending (cleaned sample_cleaned)
            = Inr (computed sample_cleaned sample_metrics, sample_metrics)"
    by code_simp
  have b: "best_product sample_metrics = Some ''Pen''" by (simp add: sample_metrics_def)
  have v: "group_total Product Quantity sample_cleaned ''Pen'' = 5"
          "group_total Product Quantity sample_cleaned ''Ink'' = 2"
    by code_simp+
  from best_product_metric[OF h1 h2 h3 h4] b
  have "best_product_qty sample_metrics
        = Some (group_total Product Quantity sample_cleaned ''Pen'')"
    by auto
  with h1 h2 h3 h4 b v show ?thesis by simp
qed

text \<open>
  C3 as stated fails on a tie: Pen and Ink both sell 5 units and Pen comes first in the
  table, so the first-encountered group with the maximum is Pen. The grouping lists Ink
  before Pen, the sort of the two equal sums leaves them so, and the program reports
  Ink. It also fails where the int64 sum of a group wraps: for quantities
  9223372036854775807 and 1 of one product the program finds a negative sum, which is
  below any other product's quantity.
\<close>

theorem best_product_tie_counterexample:
  "clean_data False sample_parse (loaded tie_table) = Inr (cleaned tie_cleaned, True)
   \<and> groupby_sum (map (\<lambda>r. (Product r, Quantity r)) tie_cleaned) = [(''Ink'', 5), (''Pen'', 5)]
   \<and> calculate_metrics stable_descending (cleaned tie_cleaned)
       = Inr (computed tie_cleaned tie_metrics, tie_metrics)
   \<and> groups_as_encountered Product Quantity tie_cleaned = [(''Pen'', 5), (''Ink'', 5)]
   \<and> idxmax (groups_as_encountered Product Quantity tie_cleaned) = Some ''Pen''
   \<and> best_product tie_metrics = Some ''Ink''
   \<and> best_product tie_metrics \<noteq> idxmax (groups_as_encountered Product Quantity tie_cleaned)
   \<and> int64_sum [9223372036854775807, 1] < 5"
proof -
  have 1: "clean_data False sample_parse (loaded tie_table) = Inr (cleaned tie_cleaned, True)"
    by code_simp
  have 2: "groupby_sum (map (\<lambda>r. (Product r, Quantity r)) tie_cleaned)
           = [(''Ink'', 5), (''Pen'', 5)]"
    by code_simp
  have 3: "calculate_metrics stable_descending (cleaned tie_cleaned)
           = Inr (computed tie_cleaned tie_metrics, tie_metrics)"
    by code_simp
  have 4: "groups_as_encountered Product Quantity tie_cleaned = [(''Pen'', 5), (''Ink'', 5)]"
    by code_simp
  have 5: "idxmax (groups_as_encountered Product Quantity tie_cleaned) = Some ''Pen''"
    by code_simp
  have 6: "best_product tie_metrics = Some ''Ink''" by (simp add: tie_metrics_def)
  have 7: "best_product tie_metrics
           \<noteq> idxmax (groups_as_encountered Product Quantity tie_cleaned)"
    unfolding 5 6 by simp
  have 8: "int64_sum [9223372036854775807, 1] < 5"
    by (simp add: int64_sum_def wrap_int64_def)
  show ?thesis using 1 2 3 4 5 6 7 8 by blast
qed

subsection \<open>The monthly sales and the trend chart\<close>












subsection \<open>The regional percentages of the report\<close>











subsection \<open>Cleaning a complete table\<close>











text \<open>
  With every date readable and a product in some record, the two stages return, so the
  statement of C5 above is not empty.
\<close>

lemma clean_then_compute_returns:
  assumes "df a = Some (Raw rows)"
    and "descending_sort sv"
    and "\<forall>t. Some t \<in> Date ` set rows \<longrightarrow> parse t \<noteq> None"
    and "\<exists>r\<in>set rows. Product r \<noteq> None"
  shows "\<exists>a1 a2 m. clean_data cow parse a = Inr (a1, True) \<and> calculate_metrics sv a1 = Inr (a2, m)"
proof -
  from clean_data_returns[OF assms(1), of cow parse] assms(3) obtain a1 where
    c: "clean_data cow parse a = Inr (a1, True)" by blast
  from clean_data_Raw[OF assms(1) c] obtain rows' where
    a1: "a1 = a\<lparr>df := Some (Cleaned rows')\<rparr>" and pr: "map Product rows' = map Product rows"
    by metis
  have "Product ` set rows' = Product ` set rows"
    using pr by (metis set_map)
  with assms(4) have "\<exists>r\<in>set rows'. Product r \<noteq> None" by (metis (no_types, lifting) image_iff)
  moreover have "df a1 = Some (Cleaned rows')" using a1 by simp
  ultimately obtain a2 m where "calculate_metrics sv a1 = Inr (a2, m)"
    using calculate_metrics_returns[OF _ assms(2)] by blast
  with c show ?thesis by blast
qed

end
